theory Spec2Isabelle
  imports Complex_Main "HOL-Library.Stream"
begin

section \<open>Numeric helpers and the random source\<close>

text \<open>
  The simulation computes with Python floats and numpy scalars; the model computes with
  the reals, so rounding is abstracted away and \<open>np.clip\<close>, \<open>max\<close>, \<open>min\<close>, \<open>abs\<close>
  are the exact order-theoretic operations.

  \<open>np.clip(x, lo, hi)\<close> is \<open>minimum(hi, maximum(x, lo))\<close>.
\<close>

definition clip :: "real \<Rightarrow> real \<Rightarrow> real \<Rightarrow> real" where
  "clip x lo hi = min (max x lo) hi"

text \<open>Membership of a closed interval \<open>[lo, hi]\<close>.\<close>

definition in_range :: "real \<Rightarrow> real \<Rightarrow> real \<Rightarrow> bool" where
  "in_range lo hi x \<longleftrightarrow> lo \<le> x \<and> x \<le> hi"

text \<open>
  The module-level generator \<open>np.random\<close> is an explicit tape of raw samples: every call
  reads the head of the tape and leaves the tail. \<open>np.random.normal(loc, scale)\<close> reads a
  standard normal sample \<open>z\<close> and returns \<open>loc + scale * z\<close>; \<open>np.random.random()\<close> and
  \<open>np.random.uniform(lo, hi)\<close> read a sample \<open>u\<close> of \<open>[0, 1)\<close>;
  \<open>np.random.choice([2, 5, 8], p=[0.6, 0.3, 0.1])\<close> reads one sample \<open>u\<close> and looks it up
  in the cumulative distribution \<open>[0.6, 0.9, 1.0]\<close>.
\<close>

type_synonym rng = "real stream"

definition np_normal :: "real \<Rightarrow> real \<Rightarrow> rng \<Rightarrow> real \<times> rng" where
  "np_normal loc scale r = (loc + scale * shd r, stl r)"

definition np_random :: "rng \<Rightarrow> real \<times> rng" where
  "np_random r = (shd r, stl r)"

definition np_uniform :: "real \<Rightarrow> real \<Rightarrow> rng \<Rightarrow> real \<times> rng" where
  "np_uniform lo hi r = (lo + (hi - lo) * shd r, stl r)"

definition np_choice_magnitude :: "rng \<Rightarrow> real \<times> rng" where
  "np_choice_magnitude r =
     ((if shd r < 0.6 then 2 else if shd r < 0.9 then 5 else 8), stl r)"

text \<open>\<open>np.mean\<close> and \<open>np.var\<close> (population variance) of a list of samples.\<close>

definition np_mean :: "real list \<Rightarrow> real" where
  "np_mean xs = sum_list xs / real (length xs)"

definition np_var :: "real list \<Rightarrow> real" where
  "np_var xs = np_mean (map (\<lambda>x. (x - np_mean xs)\<^sup>2) xs)"

text \<open>
  \<open>deque(maxlen=50).append(x)\<close>: the new sample goes to the right end and, when the
  window is full, the oldest sample falls off the left end.
\<close>

definition hist_len :: nat where
  "hist_len = 50"

definition deque_append :: "real list \<Rightarrow> real \<Rightarrow> real list" where
  "deque_append h x = (let h' = h @ [x] in drop (length h' - hist_len) h')"

text \<open>The last ten samples, \<open>list(h)[-10:]\<close>.\<close>

definition last10 :: "real list \<Rightarrow> real list" where
  "last10 h = drop (length h - 10) h"

section \<open>The extended model (27 observations, 27 actions)\<close>

subsection \<open>Constants\<close>

definition HALFLIFE_CORTISOL :: real where "HALFLIFE_CORTISOL = 1.25"
definition HALFLIFE_ACTH :: real where "HALFLIFE_ACTH = 0.17"
definition HALFLIFE_CRH :: real where "HALFLIFE_CRH = 0.25"
definition HALFLIFE_AVP :: real where "HALFLIFE_AVP = 0.33"
definition HALFLIFE_BETAEP :: real where "HALFLIFE_BETAEP = 0.5"
definition HALFLIFE_UCN1 :: real where "HALFLIFE_UCN1 = 0.5"
definition HALFLIFE_UCN23 :: real where "HALFLIFE_UCN23 = 1.0"

definition MR_KD :: real where "MR_KD = 0.5"
definition GR_KD :: real where "GR_KD = 5.0"
definition CORTISOL_TO_NM :: real where "CORTISOL_TO_NM = 27.6"

definition OPT_CORTISOL :: real where "OPT_CORTISOL = 15.0"
definition OPT_ACTH :: real where "OPT_ACTH = 25.0"
definition OPT_CRH :: real where "OPT_CRH = 100.0"
definition OPT_AVP :: real where "OPT_AVP = 4.0"

definition TOL_CORTISOL :: real where "TOL_CORTISOL = 7.0"
definition TOL_ACTH :: real where "TOL_ACTH = 15.0"
definition TOL_CRH :: real where "TOL_CRH = 50.0"

definition CRH_BASAL :: real where "CRH_BASAL = 50.0"
definition ACTH_BASAL :: real where "ACTH_BASAL = 15.0"
definition CORT_BASAL :: real where "CORT_BASAL = 8.0"
definition AVP_BASAL :: real where "AVP_BASAL = 2.0"
definition BETAEP_BASAL :: real where "BETAEP_BASAL = 5.0"

definition GLAND_GROWTH :: real where "GLAND_GROWTH = 0.001"
definition GLAND_ATROPHY :: real where "GLAND_ATROPHY = 0.0008"

definition k_cort :: real where "k_cort = ln 2 / HALFLIFE_CORTISOL"
definition k_acth :: real where "k_acth = ln 2 / HALFLIFE_ACTH"
definition k_crh :: real where "k_crh = ln 2 / HALFLIFE_CRH"
definition k_avp :: real where "k_avp = ln 2 / HALFLIFE_AVP"
definition k_betaep :: real where "k_betaep = ln 2 / HALFLIFE_BETAEP"
definition k_ucn1 :: real where "k_ucn1 = ln 2 / HALFLIFE_UCN1"
definition k_ucn23 :: real where "k_ucn23 = ln 2 / HALFLIFE_UCN23"

definition ultradian_period :: real where "ultradian_period = 1.5"

subsection \<open>The environment object\<close>

text \<open>
  One record for the attributes of \<open>HPAEnvironment\<close>: the two construction parameters
  \<open>dt\<close> and \<open>max_steps\<close>, and every attribute that \<open>reset\<close> and \<open>step\<close> assign.
\<close>

record env =
  dt :: real
  max_steps :: int
  crh :: real
  acth :: real
  cortisol :: real
  avp :: real
  beta_endorphin :: real
  melanocortin_tone :: real
  ucn1 :: real
  ucn23 :: real
  mr_receptors :: real
  gr_receptors :: real
  crfr1_density :: real
  crfr2_density :: real
  pituitary_mass :: real
  adrenal_mass :: real
  nts_drive :: real
  gaba_inhibition :: real
  sfo_drive :: real
  cea_activity :: real
  mea_activity :: real
  cea_sensitisation :: real
  pfc_inhibition :: real
  lc_activity :: real
  hippocampal_damage :: real
  arcuate_metabolic_drive :: real
  stress_physical :: real
  stress_emotional :: real
  chronic_stress_index :: real
  time_hours :: real
  day :: int
  ultradian_phase :: real
  prev_cortisol :: real
  fast_feedback_signal :: real
  current_step :: int
  cumulative_load :: real
  cortisol_history :: "real list"

definition stress_level :: "env \<Rightarrow> real" where
  "stress_level s = stress_physical s + stress_emotional s"

definition cortisol_nm :: "env \<Rightarrow> real" where
  "cortisol_nm s = cortisol s * CORTISOL_TO_NM"

definition receptor_occupancy :: "env \<Rightarrow> real \<times> real" where
  "receptor_occupancy s =
     (let cnm = cortisol_nm s;
          mr = cnm / (MR_KD + cnm);
          gr = cnm / (GR_KD + cnm)
      in (mr, gr))"


subsection \<open>Feedback mechanisms\<close>

text \<open>
  \<open>_fast_nongenomic_feedback\<close> stores the smoothed signal in the object and returns it.
\<close>

definition fast_nongenomic_feedback :: "env \<Rightarrow> real \<times> env" where
  "fast_nongenomic_feedback s =
     (let rate = (cortisol s - prev_cortisol s) / dt s;
          pos_rate = max 0 rate;
          signal = pos_rate / (pos_rate + 5);
          v = 0.7 * signal + 0.3 * fast_feedback_signal s
      in (v, s\<lparr>fast_feedback_signal := v\<rparr>))"

definition slow_genomic_feedback :: "env \<Rightarrow> real \<Rightarrow> real \<Rightarrow> real" where
  "slow_genomic_feedback s mr_occ gr_occ =
     (let mr_fb = 0.3 * mr_occ * mr_receptors s;
          gr_fb = 0.7 * gr_occ * gr_receptors s;
          pfc_genomic = 0.1 * gr_occ * gr_receptors s * pfc_inhibition s
      in mr_fb + gr_fb + pfc_genomic)"

definition hippocampal_feedback :: "env \<Rightarrow> real \<Rightarrow> real \<Rightarrow> real" where
  "hippocampal_feedback s mr_occ gr_occ =
     (let hip_signal = 0.4 * mr_occ * mr_receptors s + 0.6 * gr_occ * gr_receptors s;
          damage_factor = max 0.1 (1 - 0.5 * hippocampal_damage s
                                     - 0.3 * tanh (chronic_stress_index s))
      in hip_signal * damage_factor)"

definition total_negative_feedback :: "env \<Rightarrow> (real \<times> real \<times> real) \<times> env" where
  "total_negative_feedback s =
     (let (mr_occ, gr_occ) = receptor_occupancy s;
          slow_genomic = slow_genomic_feedback s mr_occ gr_occ;
          (fast_nongenomic, s1) = fast_nongenomic_feedback s;
          hippocampal = hippocampal_feedback s1 mr_occ gr_occ;
          total = slow_genomic + 0.3 * fast_nongenomic + 0.4 * hippocampal
      in ((total, mr_occ, gr_occ), s1))"

subsection \<open>Limbic and upstream subsystems\<close>

definition update_urocortins :: "env \<Rightarrow> env" where
  "update_urocortins s =
     (let ucn1_prod = 0.5 + 0.1 * stress_level s;
          s1 = s\<lparr>ucn1 := clip (ucn1 s + (ucn1_prod - k_ucn1 * ucn1 s) * dt s) 0.1 5.0\<rparr>;
          ucn23_prod = 0.5 + 0.2 * stress_emotional s1 + 0.05 * lc_activity s1
      in s1\<lparr>ucn23 := clip (ucn23 s1 + (ucn23_prod - k_ucn23 * ucn23 s1) * dt s1) 0.1 8.0\<rparr>)"

definition ucn_crfr_modulation :: "env \<Rightarrow> real \<times> real" where
  "ucn_crfr_modulation s =
     (let crfr1_boost = 0.05 * (ucn1 s - 1.0);
          crfr2_boost = 0.04 * (ucn1 s - 1.0) + 0.06 * (ucn23 s - 1.0)
      in (crfr1_boost, crfr2_boost))"

definition update_amygdala :: "env \<Rightarrow> real \<Rightarrow> real \<Rightarrow> env" where
  "update_amygdala s mr_occ gr_occ =
     (let cea_target = 0.1 + 0.4 * tanh (stress_physical s / 3.0);
          cea_gluco_boost = 0.1 * gr_occ * gr_receptors s * (1.0 + cea_sensitisation s);
          cea_target' = min 1.0 (cea_target + cea_gluco_boost);
          s1 = s\<lparr>cea_activity := cea_activity s + 0.08 * (cea_target' - cea_activity s) * dt s\<rparr>;
          s2 = s1\<lparr>cea_sensitisation :=
                 clip (cea_sensitisation s1 + 0.001 * gr_occ * chronic_stress_index s1 * dt s1
                       - 0.0005 * dt s1) 0.0 2.0\<rparr>;
          mea_target = 0.1 + 0.4 * tanh (stress_emotional s2 / 3.0);
          s3 = s2\<lparr>mea_activity := mea_activity s2 + 0.06 * (mea_target - mea_activity s2) * dt s2\<rparr>;
          s4 = s3\<lparr>cea_activity := clip (cea_activity s3) 0.0 1.0\<rparr>
      in s4\<lparr>mea_activity := clip (mea_activity s4) 0.0 1.0\<rparr>)"

definition update_pfc :: "env \<Rightarrow> real \<Rightarrow> real \<Rightarrow> env" where
  "update_pfc s mr_occ gr_occ =
     (let pfc_target = 0.5 * (1.0 - 0.3 * tanh (chronic_stress_index s));
          acute_suppression = 0.1 * tanh (stress_level s / 5.0);
          pfc_target' = max 0.05 (pfc_target - acute_suppression);
          s1 = s\<lparr>pfc_inhibition := pfc_inhibition s + 0.04 * (pfc_target' - pfc_inhibition s) * dt s\<rparr>
      in s1\<lparr>pfc_inhibition := clip (pfc_inhibition s1) 0.0 1.0\<rparr>)"

definition update_lc :: "env \<Rightarrow> env" where
  "update_lc s =
     (let lc_target = 0.1 + 0.2 * tanh (stress_level s / 5.0)
                          + 0.1 * (crh s / OPT_CRH)
                          + 0.05 * (ucn23 s - 1.0);
          lc_target' = lc_target * max 0.4 (1.0 - 0.15 * tanh (chronic_stress_index s));
          s1 = s\<lparr>lc_activity := lc_activity s + 0.05 * (lc_target' - lc_activity s) * dt s\<rparr>
      in s1\<lparr>lc_activity := clip (lc_activity s1) 0.0 1.0\<rparr>)"

definition update_sfo :: "env \<Rightarrow> env" where
  "update_sfo s =
     (let sfo_target = 0.1 + 0.15 * tanh (stress_physical s / 4.0)
                           + 0.1 * (avp s / OPT_AVP - 1.0);
          s1 = s\<lparr>sfo_drive := sfo_drive s + 0.04 * (sfo_target - sfo_drive s) * dt s\<rparr>
      in s1\<lparr>sfo_drive := clip (sfo_drive s1) 0.0 1.0\<rparr>)"

definition update_arcuate :: "env \<Rightarrow> env" where
  "update_arcuate s =
     (let npy_agrp_drive = 0.1 * tanh (chronic_stress_index s)
                           + 0.05 * tanh (stress_physical s / 3.0);
          msh_cart_drive = - 0.05 * melanocortin_tone s
                           - 0.03 * tanh (stress_emotional s / 3.0);
          target = npy_agrp_drive + msh_cart_drive;
          s1 = s\<lparr>arcuate_metabolic_drive :=
                 arcuate_metabolic_drive s + 0.02 * (target - arcuate_metabolic_drive s) * dt s\<rparr>
      in s1\<lparr>arcuate_metabolic_drive := clip (arcuate_metabolic_drive s1) (- 1.0) 1.0\<rparr>)"

definition update_avp :: "env \<Rightarrow> env" where
  "update_avp s =
     (let chronic_boost = 1.0 + 0.3 * tanh (chronic_stress_index s);
          stress_drive_avp = 0.4 * stress_level s;
          sfo_avp_link = 0.2 * sfo_drive s;
          avp_production = AVP_BASAL * chronic_boost
                           + stress_drive_avp
                           + sfo_avp_link
                           - AVP_BASAL * 0.3 * (cortisol s / OPT_CORTISOL);
          avp_decay = k_avp * avp s
      in s\<lparr>avp := clip (avp s + (avp_production - avp_decay) * dt s) 0.5 30.0\<rparr>)"

definition update_pomc_products :: "env \<Rightarrow> env" where
  "update_pomc_products s =
     (let betaep_prod = BETAEP_BASAL + 0.15 * (acth s - OPT_ACTH) * pituitary_mass s;
          betaep_decay = k_betaep * beta_endorphin s;
          s1 = s\<lparr>beta_endorphin :=
                 clip (beta_endorphin s + (betaep_prod - betaep_decay) * dt s) 0.0 40.0\<rparr>;
          mcr_target = 0.5 + 0.5 * (acth s1 / OPT_ACTH);
          s2 = s1\<lparr>melanocortin_tone :=
                 melanocortin_tone s1 + 0.05 * (mcr_target - melanocortin_tone s1) * dt s1\<rparr>
      in s2\<lparr>melanocortin_tone := clip (melanocortin_tone s2) 0.1 3.0\<rparr>)"

definition update_upstream_signals :: "env \<Rightarrow> real \<Rightarrow> real \<Rightarrow> env" where
  "update_upstream_signals s mr_occ gr_occ =
     (let nts_target = 0.1 + 0.2 * tanh (stress_level s / 5.0) + 0.3 * cea_activity s;
          nts_target' = nts_target * max 0.3 (1.0 - 0.3 * pfc_inhibition s);
          s1 = s\<lparr>nts_drive := nts_drive s + 0.05 * (nts_target' - nts_drive s) * dt s\<rparr>;
          gaba_target = 0.15 + 0.2 * tanh (stress_level s1 / 4.0) + 0.1 * pfc_inhibition s1;
          s2 = s1\<lparr>gaba_inhibition :=
                 gaba_inhibition s1 + 0.03 * (gaba_target - gaba_inhibition s1) * dt s1\<rparr>;
          s3 = s2\<lparr>nts_drive := clip (nts_drive s2) 0.0 1.0\<rparr>
      in s3\<lparr>gaba_inhibition := clip (gaba_inhibition s3) 0.0 1.0\<rparr>)"

definition update_hippocampal_damage :: "env \<Rightarrow> real \<Rightarrow> env" where
  "update_hippocampal_damage s gr_occ =
     (let damage_rate = 0.0002 * max 0.0 (gr_occ - 0.4) * chronic_stress_index s;
          repair_rate = 0.00002
      in s\<lparr>hippocampal_damage :=
             clip (hippocampal_damage s + (damage_rate - repair_rate) * dt s) 0.0 1.0\<rparr>)"

subsection \<open>Receptor and gland plasticity\<close>

definition update_crf_receptors :: "env \<Rightarrow> env" where
  "update_crf_receptors s =
     (let (ucn_crfr1, ucn_crfr2) = ucn_crfr_modulation s;
          s1 = (if crh s > 150
                then s\<lparr>crfr1_density := crfr1_density s - 0.00015 * dt s\<rparr>
                else s\<lparr>crfr1_density :=
                         crfr1_density s + 0.0001 * dt s * (1.0 - crfr1_density s)\<rparr>);
          s2 = s1\<lparr>crfr1_density := clip (crfr1_density s1 + ucn_crfr1 * dt s1) 0.2 1.5\<rparr>;
          chronic_upmod = 0.00005 * chronic_stress_index s2 * dt s2;
          s3 = s2\<lparr>crfr2_density := crfr2_density s2 + chronic_upmod * (1.2 - crfr2_density s2)\<rparr>;
          s4 = s3\<lparr>crfr2_density := crfr2_density s3 + 0.00005 * dt s3 * (1.0 - crfr2_density s3)\<rparr>
      in s4\<lparr>crfr2_density := clip (crfr2_density s4 + ucn_crfr2 * dt s4) 0.5 1.8\<rparr>)"

definition update_glands :: "env \<Rightarrow> env" where
  "update_glands s =
     (let s1 = (if acth s > 40
                then s\<lparr>adrenal_mass := adrenal_mass s + GLAND_GROWTH * dt s\<rparr>
                else if acth s < 15
                then s\<lparr>adrenal_mass := adrenal_mass s - GLAND_ATROPHY * dt s\<rparr>
                else s);
          s2 = (if cortisol s1 > 25
                then s1\<lparr>pituitary_mass := pituitary_mass s1 - GLAND_ATROPHY * dt s1\<rparr>
                else if cortisol s1 < 10
                then s1\<lparr>pituitary_mass := pituitary_mass s1 + GLAND_GROWTH * dt s1\<rparr>
                else s1);
          s3 = s2\<lparr>adrenal_mass := clip (adrenal_mass s2) 0.5 2.0\<rparr>;
          s4 = s3\<lparr>pituitary_mass := clip (pituitary_mass s3) 0.5 2.0\<rparr>;
          cnm = cortisol_nm s4;
          s5 = (if cnm > 100
                then s4\<lparr>gr_receptors := gr_receptors s4 * (1 - 0.0001 * dt s4),
                        mr_receptors := mr_receptors s4 * (1 - 0.00005 * dt s4)\<rparr>
                else s4\<lparr>gr_receptors :=
                          gr_receptors s4 + 0.0001 * dt s4 * (1.0 - gr_receptors s4),
                        mr_receptors :=
                          mr_receptors s4 + 0.00005 * dt s4 * (1.0 - mr_receptors s4)\<rparr>);
          s6 = s5\<lparr>gr_receptors := clip (gr_receptors s5) 0.3 1.5\<rparr>
      in s6\<lparr>mr_receptors := clip (mr_receptors s6) 0.5 1.2\<rparr>)"

subsection \<open>Circadian and ultradian rhythms\<close>

definition circadian_amplitude :: "env \<Rightarrow> real" where
  "circadian_amplitude s =
     (let phase = 2 * pi * (time_hours s - 8) / 24;
          base_amplitude = 9.0 + 9.0 * cos phase;
          avp_mod = 1.0 + 0.05 * (avp s - OPT_AVP);
          circadian_disruption = max 0.5 (1.0 - 0.1 * chronic_stress_index s)
      in base_amplitude * clip avp_mod 0.5 1.5 * circadian_disruption)"

text \<open>
  \<open>_ultradian_pulse\<close> advances the oscillator phase in the object, then reads one normal
  sample.
\<close>

definition ultradian_pulse :: "rng \<Rightarrow> env \<Rightarrow> real \<times> env \<times> rng" where
  "ultradian_pulse r s =
     (let s1 = s\<lparr>ultradian_phase := ultradian_phase s + 2 * pi * dt s / ultradian_period\<rparr>;
          (noise, r1) = np_normal 0 0.5 r
      in (3.0 * sin (ultradian_phase s1) + noise, s1, r1))"

subsection \<open>Observation\<close>

definition get_state :: "env \<Rightarrow> real list" where
  "get_state s =
     (let (mr_occ, gr_occ) = receptor_occupancy s;
          cortisol_avg = np_mean (cortisol_history s);
          cortisol_trend = (cortisol s - cortisol_avg) / 10.0;
          hip_feedback = hippocampal_feedback s mr_occ gr_occ;
          ucn_tone = (ucn1 s + ucn23 s) / 2.0
      in [stress_emotional s / 5.0,
          stress_physical s / 5.0,
          crh s / 300.0,
          acth s / 100.0,
          cortisol s / 40.0,
          avp s / 20.0,
          beta_endorphin s / 30.0,
          melanocortin_tone s / 3.0,
          crfr1_density s / 1.5,
          crfr2_density s / 1.8,
          ucn_tone / 5.0,
          time_hours s / 24.0,
          cortisol_trend,
          circadian_amplitude s / 20.0,
          mr_occ,
          gr_occ,
          hip_feedback,
          hippocampal_damage s,
          nts_drive s,
          gaba_inhibition s,
          sfo_drive s,
          cea_activity s,
          mea_activity s,
          pfc_inhibition s,
          lc_activity s,
          pituitary_mass s / 2.0,
          adrenal_mass s / 2.0])"


subsection \<open>Allostatic load\<close>

text \<open>
  \<open>_allostatic_load(mr_occ, gr_occ)\<close> reads the object and the two occupancies handed to
  it; it assigns no attribute. The running total \<open>load\<close> is rebound statement by
  statement, as in the source.
\<close>

definition allostatic_load :: "env \<Rightarrow> real \<Rightarrow> real \<Rightarrow> real" where
  "allostatic_load s mr_occ gr_occ =
     (let load = 0.05;
          dev = cortisol s - OPT_CORTISOL;
          load = (if \<bar>dev\<bar> \<le> TOL_CORTISOL
                  then load + 0.01 * (dev / TOL_CORTISOL)\<^sup>2
                  else (let excess = \<bar>dev\<bar> - TOL_CORTISOL
                        in load + 0.5 * (excess / TOL_CORTISOL)\<^sup>2));
          load = (if cortisol s > 25
                  then (let excess = cortisol s - 25;
                            load = load + excess * 0.3
                        in if cortisol s > 35
                           then (let crisis = ((cortisol s - 35) / 10)\<^sup>2
                                 in load + crisis * 2.0)
                           else load)
                  else if cortisol s < 5
                  then (let deficit = 5 - cortisol s;
                            load = load + deficit * 0.7
                        in if cortisol s < 2
                           then (let crisis = ((2 - cortisol s) / 2)\<^sup>2
                                 in load + crisis * 5.0)
                           else load)
                  else load);
          acth_dev = \<bar>acth s - OPT_ACTH\<bar>;
          load = (if acth_dev > TOL_ACTH
                  then load + 0.02 * ((acth_dev - TOL_ACTH) / TOL_ACTH)\<^sup>2
                  else load);
          crh_dev = \<bar>crh s - OPT_CRH\<bar>;
          load = (if crh_dev > TOL_CRH
                  then load + 0.01 * ((crh_dev - TOL_CRH) / TOL_CRH)\<^sup>2
                  else load);
          mr_cost = 0.5 * (mr_occ - 0.8)\<^sup>2;
          gr_optimal = (if stress_level s > 5 then 0.7 else 0.3);
          gr_cost = 0.3 * (gr_occ - gr_optimal)\<^sup>2;
          load = load + (mr_cost + gr_cost);
          load = load + 0.5 * ((1.0 - gr_receptors s)\<^sup>2 + (1.0 - mr_receptors s)\<^sup>2);
          adrenal_path = (adrenal_mass s - 1.0)\<^sup>2;
          pituitary_path = (pituitary_mass s - 1.0)\<^sup>2;
          adrenal_path = (if adrenal_mass s < 0.5 \<or> adrenal_mass s > 1.5
                          then adrenal_path * 3.0 else adrenal_path);
          pituitary_path = (if pituitary_mass s < 0.5 \<or> pituitary_mass s > 1.5
                            then pituitary_path * 3.0 else pituitary_path);
          load = load + (adrenal_path + pituitary_path) * 0.3;
          load = (if length (cortisol_history s) \<ge> 10
                  then (let variance = np_var (last10 (cortisol_history s))
                        in if variance > 25 then load + (variance - 25) / 100 else load)
                  else load);
          load = (if stress_level s > 6
                  then (let expected = 20 + stress_level s * 2;
                            err = \<bar>cortisol s - expected\<bar>
                        in if err > 10 then load + 0.5 * (err / 10)\<^sup>2 else load)
                  else if stress_level s < 2 \<and> cortisol s > 25
                  then load + 0.3 * ((cortisol s - 25) / 10)\<^sup>2
                  else load);
          load = load - 0.02 * min (beta_endorphin s / 10.0) 1.0;
          load = load + 0.05 * (\<bar>crfr1_density s - 1.0\<bar> + \<bar>crfr2_density s - 1.0\<bar>);
          load = load + 0.02 * chronic_stress_index s;
          load = load + 0.03 * cea_sensitisation s;
          load = load + 0.1 * (hippocampal_damage s)\<^sup>2;
          lc_optimal = 0.3;
          load = load + 0.05 * (lc_activity s - lc_optimal)\<^sup>2;
          load = (if pfc_inhibition s < 0.2
                  then load + 0.1 * (0.2 - pfc_inhibition s)\<^sup>2
                  else load)
      in max 0.0 load)"

subsection \<open>The blocks of \<open>step\<close>\<close>

text \<open>
  \<open>step\<close> is one long method. Each of its commented blocks that assigns attributes is a
  function here, taking the local variables it reads. The statements of \<open>step\<close> are
  grouped, in the order of the source, into three phases: the regulatory signals and the
  limbic updates (\<open>regulatory_phase\<close>), the local drives and the CRH, ACTH and cortisol
  updates (\<open>hormone_phase\<close>), and everything from the POMC products to the chronic stress
  index (\<open>adaptation_phase\<close>); \<open>step\<close> decodes the action, runs the three phases and
  does the reward and the bookkeeping.
\<close>

definition arcuate_crh_boost :: "env \<Rightarrow> real" where
  "arcuate_crh_boost s = 10.0 * \<bar>arcuate_metabolic_drive s\<bar>"

definition arcuate_acth_boost :: "env \<Rightarrow> real" where
  "arcuate_acth_boost s = 5.0 * \<bar>arcuate_metabolic_drive s\<bar>"

definition crh_dynamics :: "env \<Rightarrow> real \<Rightarrow> real \<Rightarrow> real \<Rightarrow> real \<Rightarrow> env" where
  "crh_dynamics s crh_mod total_feedback mea_crh_drive arcuate_crh_boost_v =
     (let crh_production = CRH_BASAL
                           + 10.0 * stress_level s
                           + 30.0 * nts_drive s
                           + 15.0 * sfo_drive s
                           + mea_crh_drive
                           + arcuate_crh_boost_v
                           - CRH_BASAL * total_feedback * 0.8
                           - 20.0 * gaba_inhibition s
                           + crh_mod * 20.0;
          crh_decay = k_crh * crh s
      in s\<lparr>crh := clip (crh s + (crh_production - crh_decay) * dt s) 0.0 400.0\<rparr>)"

definition acth_dynamics ::
    "env \<Rightarrow> real \<Rightarrow> real \<Rightarrow> real \<Rightarrow> real \<Rightarrow> real \<Rightarrow> real \<Rightarrow> env" where
  "acth_dynamics s acth_mod total_feedback crh_to_acth_efficiency avp_synergy
       lc_acth_contribution arcuate_acth_boost_v =
     (let crh_stimulation = 0.2 * (crh s - 100.0) * crh_to_acth_efficiency;
          avp_contribution = 0.1 * (avp s - OPT_AVP) * avp_synergy;
          acth_production = ACTH_BASAL * pituitary_mass s
                            + crh_stimulation
                            + avp_contribution
                            + lc_acth_contribution
                            + arcuate_acth_boost_v
                            - ACTH_BASAL * total_feedback * 0.5
                            + acth_mod * 10.0;
          acth_decay = k_acth * acth s
      in s\<lparr>acth := clip (acth s + (acth_production - acth_decay) * dt s) 0.0 200.0\<rparr>)"

definition cortisol_dynamics :: "rng \<Rightarrow> env \<Rightarrow> real \<Rightarrow> env \<times> rng" where
  "cortisol_dynamics r s cort_mod =
     (let circadian_drive = circadian_amplitude s;
          (ultradian, s1, r1) = ultradian_pulse r s;
          acth_stim = 0.15 * (acth s1 - OPT_ACTH) * adrenal_mass s1;
          stress_direct = 2.0 * stress_level s1;
          cort_production = (circadian_drive / 12.0) * CORT_BASAL
                            + acth_stim
                            + stress_direct
                            + ultradian * 0.3
                            + cort_mod * 2.0;
          cort_decay = k_cort * cortisol s1;
          s2 = s1\<lparr>cortisol := clip (cortisol s1 + (cort_production - cort_decay) * dt s1) 0.0 60.0\<rparr>
      in (s2\<lparr>cortisol_history := deque_append (cortisol_history s2) (cortisol s2)\<rparr>, r1))"

definition advance_time :: "env \<Rightarrow> env" where
  "advance_time s =
     (let s1 = s\<lparr>time_hours := time_hours s + dt s\<rparr>
      in if time_hours s1 \<ge> 24.0
         then s1\<lparr>time_hours := time_hours s1 - 24.0, day := day s1 + 1\<rparr>
         else s1)"

definition stress_process :: "rng \<Rightarrow> env \<Rightarrow> env \<times> rng" where
  "stress_process r s =
     (let s1 = s\<lparr>stress_physical := max 0.0 (stress_physical s * 0.97 - 0.03)\<rparr>;
          s2 = s1\<lparr>stress_emotional := max 0.0 (stress_emotional s1 * 0.97 - 0.03)\<rparr>;
          (u, r1) = np_random r
      in if u < 0.02
         then (let (magnitude, r2) = np_choice_magnitude r1;
                   (v, r3) = np_random r2;
                   is_physical = v < 0.4
               in if is_physical
                  then (s2\<lparr>stress_physical := min 10.0 (stress_physical s2 + magnitude)\<rparr>, r3)
                  else (s2\<lparr>stress_emotional := min 10.0 (stress_emotional s2 + magnitude)\<rparr>, r3))
         else (s2, r1))"

definition update_chronic_stress :: "env \<Rightarrow> env" where
  "update_chronic_stress s =
     s\<lparr>chronic_stress_index :=
         clip (chronic_stress_index s * (1 - 0.001 * dt s) + 0.001 * stress_level s * dt s)
              0.0 5.0\<rparr>"

subsection \<open>\<open>step\<close> and \<open>reset\<close>\<close>

text \<open>
  \<open>step(action)\<close> returns the observation, the reward and the \<open>done\<close> flag; the model also
  returns the object after the call and the rest of the random tape. Python's \<open>%\<close> and
  \<open>//\<close> on integers are floor modulus and floor division, which is \<open>mod\<close> and \<open>div\<close> on
  \<open>int\<close>. The method has no \<open>raise\<close> and no check of \<open>action\<close>.
\<close>

definition regulatory_phase :: "env \<Rightarrow> (real \<times> real \<times> real) \<times> env" where
  "regulatory_phase s =
     (let s1 = s\<lparr>prev_cortisol := cortisol s\<rparr>;
          ((total_feedback, mr_occ, gr_occ), s2) = total_negative_feedback s1;
          s3 = update_amygdala s2 mr_occ gr_occ;
          s4 = update_pfc s3 mr_occ gr_occ;
          s5 = update_lc s4;
          s6 = update_sfo s5;
          s7 = update_arcuate s6;
          s8 = update_upstream_signals s7 mr_occ gr_occ;
          s9 = update_urocortins s8;
          s10 = update_hippocampal_damage s9 gr_occ
      in ((total_feedback, mr_occ, gr_occ), s10))"

definition hormone_phase ::
    "rng \<Rightarrow> env \<Rightarrow> real \<Rightarrow> real \<Rightarrow> real \<Rightarrow> real \<Rightarrow> env \<times> rng" where
  "hormone_phase r s crh_mod acth_mod cort_mod total_feedback =
     (let avp_synergy = 1.0 + 0.15 * (avp s / OPT_AVP - 1.0)
                              * (1.0 + 0.2 * chronic_stress_index s);
          crfr2_brake = max 0.5 (1.0 - 0.2 * (crfr2_density s - 1.0));
          crh_to_acth_efficiency = crfr1_density s * crfr2_brake;
          arcuate_crh_boost_v = arcuate_crh_boost s;
          arcuate_acth_boost_v = arcuate_acth_boost s;
          mea_crh_drive = 10.0 * mea_activity s;
          lc_acth_contribution = 3.0 * lc_activity s;
          s11 = crh_dynamics s crh_mod total_feedback mea_crh_drive arcuate_crh_boost_v;
          s12 = acth_dynamics s11 acth_mod total_feedback crh_to_acth_efficiency avp_synergy
                  lc_acth_contribution arcuate_acth_boost_v
      in cortisol_dynamics r s12 cort_mod)"

definition adaptation_phase :: "rng \<Rightarrow> env \<Rightarrow> env \<times> rng" where
  "adaptation_phase r s =
     (let s14 = update_pomc_products s;
          s15 = update_avp s14;
          s16 = update_glands s15;
          s17 = update_crf_receptors s16;
          s18 = advance_time s17;
          (s19, r2) = stress_process r s18;
          s20 = update_chronic_stress s19
      in (s20, r2))"

definition step :: "int \<Rightarrow> rng \<Rightarrow> env \<Rightarrow> (real list \<times> real \<times> bool) \<times> env \<times> rng" where
  "step action r s =
     (let crh_mod = real_of_int ((action mod 3) - 1) * 0.3;
          acth_mod = real_of_int ((action div 3 mod 3) - 1) * 0.5;
          cort_mod = real_of_int ((action div 9 mod 3) - 1) * 0.8;
          ((total_feedback, mr_occ, gr_occ), s10) = regulatory_phase s;
          (s13, r1) = hormone_phase r s10 crh_mod acth_mod cort_mod total_feedback;
          (s20, r2) = adaptation_phase r1 s13;
          allostatic_load_v = allostatic_load s20 mr_occ gr_occ;
          s21 = s20\<lparr>cumulative_load := cumulative_load s20 + allostatic_load_v\<rparr>;
          reward = 5.0 - allostatic_load_v;
          s22 = s21\<lparr>current_step := current_step s21 + 1\<rparr>;
          done = (current_step s22 \<ge> max_steps s22)
      in ((get_state s22, reward, done), s22, r2))"

text \<open>
  \<open>reset\<close> clears the history and appends the fresh cortisol value \<open>_hist_len\<close> times.
\<close>

definition refill_history :: "real \<Rightarrow> real list" where
  "refill_history c = ((\<lambda>h. deque_append h c) ^^ hist_len) []"

definition reset :: "rng \<Rightarrow> env \<Rightarrow> real list \<times> env \<times> rng" where
  "reset r s =
     (let (n_crh, r1) = np_normal 0 20 r;
          (n_acth, r2) = np_normal 0 5 r1;
          (n_cortisol, r3) = np_normal 0 2 r2;
          (n_avp, r4) = np_normal 0 0.5 r3;
          (n_betaep, r5) = np_normal 0 1 r4;
          (u_physical, r6) = np_uniform 0 1.5 r5;
          (u_emotional, r7) = np_uniform 0 1.5 r6;
          (u_time, r8) = np_uniform 0 24 r7;
          (u_phase, r9) = np_uniform 0 (2 * pi) r8;
          s' = s\<lparr>crh := 100.0 + n_crh,
                 acth := 25.0 + n_acth,
                 cortisol := 12.0 + n_cortisol,
                 avp := 4.0 + n_avp,
                 beta_endorphin := 5.0 + n_betaep,
                 melanocortin_tone := 1.0,
                 ucn1 := 1.0,
                 ucn23 := 1.0,
                 mr_receptors := 1.0,
                 gr_receptors := 1.0,
                 crfr1_density := 1.0,
                 crfr2_density := 1.0,
                 pituitary_mass := 1.0,
                 adrenal_mass := 1.0,
                 nts_drive := 0.2,
                 gaba_inhibition := 0.3,
                 sfo_drive := 0.2,
                 cea_activity := 0.2,
                 mea_activity := 0.2,
                 cea_sensitisation := 0.0,
                 pfc_inhibition := 0.4,
                 lc_activity := 0.2,
                 hippocampal_damage := 0.0,
                 arcuate_metabolic_drive := 0.0,
                 stress_physical := u_physical,
                 stress_emotional := u_emotional,
                 chronic_stress_index := 0.0,
                 time_hours := u_time,
                 day := 0,
                 ultradian_phase := u_phase,
                 prev_cortisol := 12.0 + n_cortisol,
                 fast_feedback_signal := 0.0,
                 current_step := 0,
                 cumulative_load := 0.0,
                 cortisol_history := refill_history (12.0 + n_cortisol)\<rparr>
      in (get_state s', s', r9))"


section \<open>The simple model (12 observations, 9 actions, developmental stages)\<close>

text \<open>
  The second \<open>HPAEnvironment\<close> class. Its attributes carry the prefix \<open>s_\<close> here, to keep
  them apart from those of the extended model. The attributes that
  \<open>_set_developmental_parameters\<close> and \<open>_setup_physiological_parameters\<close> derive from the
  stage at construction are functions of the stage.
\<close>

record simple_env =
  s_dt :: real
  s_stage :: string
  s_cortisol :: real
  s_acth :: real
  s_crh :: real
  s_pituitary_mass :: real
  s_adrenal_mass :: real
  s_mr_receptors :: real
  s_gr_receptors :: real
  s_stress_level :: real
  s_time_hours :: real
  s_day :: int
  s_ultradian_phase :: real
  s_cortisol_history :: "real list"
  s_current_step :: int
  s_cumulative_load :: real

subsection \<open>Developmental and physiological parameters\<close>

definition stage_max_steps :: "simple_env \<Rightarrow> int" where
  "stage_max_steps s =
     (if s_stage s = ''infant'' then 240
      else if s_stage s = ''child'' then 720
      else if s_stage s = ''adolescent'' then 1440
      else 2400)"

definition feedback_maturity :: "simple_env \<Rightarrow> real" where
  "feedback_maturity s =
     (if s_stage s = ''infant'' then 0.4
      else if s_stage s = ''child'' then 0.7
      else if s_stage s = ''adolescent'' then 0.9
      else 1.0)"

definition receptor_sensitivity :: "simple_env \<Rightarrow> real" where
  "receptor_sensitivity s =
     (if s_stage s = ''infant'' then 0.6
      else if s_stage s = ''child'' then 0.8
      else if s_stage s = ''adolescent'' then 0.95
      else 1.0)"

definition stress_resilience :: "simple_env \<Rightarrow> real" where
  "stress_resilience s =
     (if s_stage s = ''infant'' then 0.5
      else if s_stage s = ''child'' then 0.7
      else if s_stage s = ''adolescent'' then 0.85
      else 1.0)"

definition cortisol_halflife :: real where "cortisol_halflife = 1.25"
definition acth_halflife :: real where "acth_halflife = 0.17"
definition crh_halflife :: real where "crh_halflife = 0.25"

definition k_cortisol :: real where "k_cortisol = ln 2 / cortisol_halflife"
definition k_acth_s :: real where "k_acth_s = ln 2 / acth_halflife"
definition k_crh_s :: real where "k_crh_s = ln 2 / crh_halflife"

definition crh_basal_secretion :: real where "crh_basal_secretion = 50.0"
definition acth_basal_secretion :: real where "acth_basal_secretion = 15.0"
definition cortisol_basal_secretion :: real where "cortisol_basal_secretion = 8.0"

definition stress_to_crh :: real where "stress_to_crh = 10.0"
definition stress_to_cortisol :: real where "stress_to_cortisol = 2.0"

definition mr_kd :: real where "mr_kd = 0.5"
definition gr_kd :: real where "gr_kd = 5.0"

definition mr_feedback_strength :: "simple_env \<Rightarrow> real" where
  "mr_feedback_strength s = 0.3 * feedback_maturity s"

definition gr_feedback_strength :: "simple_env \<Rightarrow> real" where
  "gr_feedback_strength s = 0.7 * feedback_maturity s"

definition gland_growth_rate :: real where "gland_growth_rate = 0.001"
definition gland_atrophy_rate :: real where "gland_atrophy_rate = 0.0008"

definition optimal_cortisol :: real where "optimal_cortisol = 15.0"
definition optimal_acth :: real where "optimal_acth = 25.0"
definition optimal_crh :: real where "optimal_crh = 100.0"

definition cortisol_tolerance :: real where "cortisol_tolerance = 7.0"
definition acth_tolerance :: real where "acth_tolerance = 15.0"
definition crh_tolerance :: real where "crh_tolerance = 50.0"

definition ultradian_period_s :: real where "ultradian_period_s = 1.5"

subsection \<open>Feedback, rhythms and plasticity\<close>

definition cortisol_to_nmol :: "real \<Rightarrow> real" where
  "cortisol_to_nmol cortisol_ugdl = cortisol_ugdl * 27.6"

definition calculate_receptor_occupancy :: "real \<Rightarrow> real \<times> real" where
  "calculate_receptor_occupancy cortisol_nM =
     (let mr_occ = cortisol_nM / (mr_kd + cortisol_nM);
          gr_occ = cortisol_nM / (gr_kd + cortisol_nM)
      in (mr_occ, gr_occ))"

definition calculate_total_feedback :: "simple_env \<Rightarrow> real \<times> real \<times> real" where
  "calculate_total_feedback s =
     (let cortisol_nM = cortisol_to_nmol (s_cortisol s);
          (mr_occ, gr_occ) = calculate_receptor_occupancy cortisol_nM;
          total_feedback = mr_feedback_strength s * mr_occ * s_mr_receptors s
                           + gr_feedback_strength s * gr_occ * s_gr_receptors s
      in (total_feedback * receptor_sensitivity s, mr_occ, gr_occ))"

definition get_circadian_amplitude :: "simple_env \<Rightarrow> real" where
  "get_circadian_amplitude s =
     (let phase = 2 * pi * (s_time_hours s - 8) / 24;
          amplitude = 9.0 + 9.0 * cos phase
      in amplitude)"

definition get_ultradian_pulse :: "rng \<Rightarrow> simple_env \<Rightarrow> real \<times> simple_env \<times> rng" where
  "get_ultradian_pulse r s =
     (let s1 = s\<lparr>s_ultradian_phase := s_ultradian_phase s + 2 * pi * s_dt s / ultradian_period_s\<rparr>;
          pulse_amplitude = 3.0 * sin (s_ultradian_phase s1);
          (noise, r1) = np_normal 0 0.5 r;
          pulse_amplitude = pulse_amplitude + noise
      in (pulse_amplitude, s1, r1))"

definition update_gland_masses :: "simple_env \<Rightarrow> simple_env" where
  "update_gland_masses s =
     (let s1 = (if s_acth s > 40
                then s\<lparr>s_adrenal_mass := s_adrenal_mass s + gland_growth_rate * s_dt s\<rparr>
                else if s_acth s < 15
                then s\<lparr>s_adrenal_mass := s_adrenal_mass s - gland_atrophy_rate * s_dt s\<rparr>
                else s);
          s2 = (if s_cortisol s1 > 25
                then s1\<lparr>s_pituitary_mass := s_pituitary_mass s1 - gland_atrophy_rate * s_dt s1\<rparr>
                else if s_cortisol s1 < 10
                then s1\<lparr>s_pituitary_mass := s_pituitary_mass s1 + gland_growth_rate * s_dt s1\<rparr>
                else s1);
          s3 = s2\<lparr>s_adrenal_mass := clip (s_adrenal_mass s2) 0.5 2.0\<rparr>;
          s4 = s3\<lparr>s_pituitary_mass := clip (s_pituitary_mass s3) 0.5 2.0\<rparr>;
          cortisol_nM = cortisol_to_nmol (s_cortisol s4);
          s5 = (if cortisol_nM > 100
                then s4\<lparr>s_gr_receptors := s_gr_receptors s4 * (1 - 0.0001 * s_dt s4),
                        s_mr_receptors := s_mr_receptors s4 * (1 - 0.00005 * s_dt s4)\<rparr>
                else s4\<lparr>s_gr_receptors :=
                          s_gr_receptors s4 + 0.0001 * s_dt s4 * (1.0 - s_gr_receptors s4),
                        s_mr_receptors :=
                          s_mr_receptors s4 + 0.00005 * s_dt s4 * (1.0 - s_mr_receptors s4)\<rparr>);
          s6 = s5\<lparr>s_gr_receptors := clip (s_gr_receptors s5) 0.3 1.5\<rparr>
      in s6\<lparr>s_mr_receptors := clip (s_mr_receptors s6) 0.5 1.2\<rparr>)"

definition get_state_simple :: "simple_env \<Rightarrow> real list" where
  "get_state_simple s =
     (let (total_feedback, mr_occ, gr_occ) = calculate_total_feedback s;
          cortisol_avg = np_mean (s_cortisol_history s);
          cortisol_trend = (s_cortisol s - cortisol_avg) / 10.0
      in [s_stress_level s / 10.0,
          s_crh s / 300.0,
          s_acth s / 100.0,
          s_cortisol s / 40.0,
          s_time_hours s / 24.0,
          cortisol_trend,
          get_circadian_amplitude s / 20.0,
          mr_occ,
          gr_occ,
          s_pituitary_mass s / 2.0,
          s_adrenal_mass s / 2.0,
          real_of_int (s_day s) / 10.0])"

subsection \<open>Allostatic load of the simple model\<close>

text \<open>
  \<open>_calculate_allostatic_load(mr_occ, gr_occ)\<close> computes eleven named components, adds
  them and scales the sum by the vulnerability factor. Each component is a function here,
  under the name of the local variable.
\<close>

definition basal_cost :: real where "basal_cost = 0.05"

definition deviation_cost :: "simple_env \<Rightarrow> real" where
  "deviation_cost s =
     (let cortisol_deviation = s_cortisol s - optimal_cortisol
      in if \<bar>cortisol_deviation\<bar> \<le> cortisol_tolerance
         then 0.01 * (cortisol_deviation / cortisol_tolerance)\<^sup>2
         else (let excess = \<bar>cortisol_deviation\<bar> - cortisol_tolerance
               in 0.5 * (excess / cortisol_tolerance)\<^sup>2))"

definition tissue_damage :: "simple_env \<Rightarrow> real" where
  "tissue_damage s =
     (let tissue_damage = 0.0
      in if s_cortisol s > 25
         then (let excess_cortisol = s_cortisol s - 25;
                   tissue_damage = tissue_damage + excess_cortisol * 0.3
               in if s_cortisol s > 35
                  then (let crisis_multiplier = ((s_cortisol s - 35) / 10)\<^sup>2
                        in tissue_damage + crisis_multiplier * 2.0)
                  else tissue_damage)
         else if s_cortisol s < 5
         then (let deficit = 5 - s_cortisol s;
                   tissue_damage = tissue_damage + deficit * 0.7
               in if s_cortisol s < 2
                  then (let crisis_multiplier = ((2 - s_cortisol s) / 2)\<^sup>2
                        in tissue_damage + crisis_multiplier * 5.0)
                  else tissue_damage)
         else tissue_damage)"

definition acth_cost :: "simple_env \<Rightarrow> real" where
  "acth_cost s =
     (let acth_deviation = \<bar>s_acth s - optimal_acth\<bar>
      in if acth_deviation > acth_tolerance
         then (let excess_acth = acth_deviation - acth_tolerance
               in 0.02 * (excess_acth / acth_tolerance)\<^sup>2)
         else 0.0)"

definition crh_cost :: "simple_env \<Rightarrow> real" where
  "crh_cost s =
     (let crh_deviation = \<bar>s_crh s - optimal_crh\<bar>
      in if crh_deviation > crh_tolerance
         then (let excess_crh = crh_deviation - crh_tolerance
               in 0.01 * (excess_crh / crh_tolerance)\<^sup>2)
         else 0.0)"

definition mr_cost :: "real \<Rightarrow> real" where
  "mr_cost mr_occ =
     (let mr_optimal = 0.8;
          mr_loss = \<bar>mr_occ - mr_optimal\<bar>
      in 0.5 * mr_loss\<^sup>2)"

definition gr_cost :: "simple_env \<Rightarrow> real \<Rightarrow> real" where
  "gr_cost s gr_occ =
     (let gr_optimal = (if s_stress_level s > 5 then 0.7 else 0.3);
          gr_loss = \<bar>gr_occ - gr_optimal\<bar>
      in 0.3 * gr_loss\<^sup>2)"

definition receptor_cost :: "simple_env \<Rightarrow> real" where
  "receptor_cost s =
     (let receptor_downregulation = (1.0 - s_gr_receptors s)\<^sup>2 + (1.0 - s_mr_receptors s)\<^sup>2
      in receptor_downregulation * 0.5)"

definition gland_cost :: "simple_env \<Rightarrow> real" where
  "gland_cost s =
     (let adrenal_pathology = (s_adrenal_mass s - 1.0)\<^sup>2;
          pituitary_pathology = (s_pituitary_mass s - 1.0)\<^sup>2;
          adrenal_pathology = (if s_adrenal_mass s < 0.5 \<or> s_adrenal_mass s > 1.5
                               then adrenal_pathology * 3.0 else adrenal_pathology);
          pituitary_pathology = (if s_pituitary_mass s < 0.5 \<or> s_pituitary_mass s > 1.5
                                 then pituitary_pathology * 3.0 else pituitary_pathology)
      in (adrenal_pathology + pituitary_pathology) * 0.3)"

definition instability_cost :: "simple_env \<Rightarrow> real" where
  "instability_cost s =
     (if length (s_cortisol_history s) \<ge> 10
      then (let recent_cortisol = last10 (s_cortisol_history s);
                variance = np_var recent_cortisol
            in if variance > 25 then (variance - 25) / 100 else 0.0)
      else 0.0)"

definition stress_response_cost :: "simple_env \<Rightarrow> real" where
  "stress_response_cost s =
     (if s_stress_level s > 6
      then (let expected_cortisol = 20 + s_stress_level s * 2;
                response_error = \<bar>s_cortisol s - expected_cortisol\<bar>
            in if response_error > 10 then 0.5 * (response_error / 10)\<^sup>2 else 0.0)
      else if s_stress_level s < 2
      then (if s_cortisol s > 25 then 0.3 * ((s_cortisol s - 25) / 10)\<^sup>2 else 0.0)
      else 0.0)"

definition calculate_allostatic_load :: "simple_env \<Rightarrow> real \<Rightarrow> real \<Rightarrow> real" where
  "calculate_allostatic_load s mr_occ gr_occ =
     (let total_allocastic_load = basal_cost
                                  + deviation_cost s
                                  + tissue_damage s
                                  + acth_cost s
                                  + crh_cost s
                                  + mr_cost mr_occ
                                  + gr_cost s gr_occ
                                  + receptor_cost s
                                  + gland_cost s
                                  + instability_cost s
                                  + stress_response_cost s;
          vulnerability_factor = 2.0 - stress_resilience s;
          adjusted_load = total_allocastic_load * vulnerability_factor
      in adjusted_load)"

subsection \<open>\<open>step\<close> and \<open>reset\<close> of the simple model\<close>

definition crh_dynamics_s :: "simple_env \<Rightarrow> real \<Rightarrow> real \<Rightarrow> simple_env" where
  "crh_dynamics_s s crh_mod total_feedback =
     (let crh_production = crh_basal_secretion
                           + stress_to_crh * s_stress_level s
                           - crh_basal_secretion * total_feedback
                           + crh_mod * 20;
          crh_decay = k_crh_s * s_crh s;
          d_crh = (crh_production - crh_decay) * s_dt s
      in s\<lparr>s_crh := clip (s_crh s + d_crh) 0 400\<rparr>)"

definition acth_dynamics_s :: "simple_env \<Rightarrow> real \<Rightarrow> real \<Rightarrow> simple_env" where
  "acth_dynamics_s s acth_mod total_feedback =
     (let crh_stimulation = 0.2 * (s_crh s - 100);
          acth_production = acth_basal_secretion * s_pituitary_mass s
                            + crh_stimulation
                            - acth_basal_secretion * total_feedback * 0.5
                            + acth_mod * 10;
          acth_decay = k_acth_s * s_acth s;
          d_acth = (acth_production - acth_decay) * s_dt s
      in s\<lparr>s_acth := clip (s_acth s + d_acth) 0 200\<rparr>)"

definition cortisol_dynamics_s :: "rng \<Rightarrow> simple_env \<Rightarrow> real \<Rightarrow> simple_env \<times> rng" where
  "cortisol_dynamics_s r s cortisol_mod =
     (let circadian_drive = get_circadian_amplitude s;
          (ultradian_pulse_v, s1, r1) = get_ultradian_pulse r s;
          acth_stimulation = 0.15 * (s_acth s1 - 25);
          stress_drive = stress_to_cortisol * s_stress_level s1;
          cortisol_production = (circadian_drive / 12.0) * cortisol_basal_secretion
                                + acth_stimulation * s_adrenal_mass s1
                                + stress_drive
                                + ultradian_pulse_v * 0.3
                                + cortisol_mod * 2;
          cortisol_decay = k_cortisol * s_cortisol s1;
          d_cortisol = (cortisol_production - cortisol_decay) * s_dt s1;
          s2 = s1\<lparr>s_cortisol := clip (s_cortisol s1 + d_cortisol) 0 60\<rparr>
      in (s2\<lparr>s_cortisol_history := deque_append (s_cortisol_history s2) (s_cortisol s2)\<rparr>, r1))"

definition advance_time_s :: "simple_env \<Rightarrow> simple_env" where
  "advance_time_s s =
     (let s1 = s\<lparr>s_time_hours := s_time_hours s + s_dt s\<rparr>
      in if s_time_hours s1 \<ge> 24
         then s1\<lparr>s_time_hours := s_time_hours s1 - 24, s_day := s_day s1 + 1\<rparr>
         else s1)"

definition stress_process_s :: "rng \<Rightarrow> simple_env \<Rightarrow> simple_env \<times> rng" where
  "stress_process_s r s =
     (let s1 = s\<lparr>s_stress_level := max 0 (s_stress_level s * 0.98 - 0.05)\<rparr>;
          (u, r1) = np_random r
      in if u < 0.02
         then (let (stress_magnitude, r2) = np_choice_magnitude r1
               in (s1\<lparr>s_stress_level := min 10 (s_stress_level s1 + stress_magnitude)\<rparr>, r2))
         else (s1, r1))"

definition step_simple ::
    "int \<Rightarrow> rng \<Rightarrow> simple_env \<Rightarrow> (real list \<times> real \<times> bool) \<times> simple_env \<times> rng" where
  "step_simple action r s =
     (let crh_mod = real_of_int (action mod 3 - 1) * 0.3;
          acth_mod = real_of_int ((action div 3) mod 3 - 1) * 0.5;
          cortisol_mod = real_of_int ((action div 9) mod 3 - 1) * 0.8;
          (total_feedback, mr_occ, gr_occ) = calculate_total_feedback s;
          s1 = crh_dynamics_s s crh_mod total_feedback;
          s2 = acth_dynamics_s s1 acth_mod total_feedback;
          (s3, r1) = cortisol_dynamics_s r s2 cortisol_mod;
          s4 = update_gland_masses s3;
          s5 = advance_time_s s4;
          (s6, r2) = stress_process_s r1 s5;
          s7 = s6\<lparr>s_current_step := s_current_step s6 + 1\<rparr>;
          allostatic_load_v = calculate_allostatic_load s7 mr_occ gr_occ;
          s8 = s7\<lparr>s_cumulative_load := s_cumulative_load s7 + allostatic_load_v\<rparr>;
          reward = - allostatic_load_v + 5.0;
          done = (s_current_step s8 \<ge> stage_max_steps s8)
      in ((get_state_simple s8, reward, done), s8, r2))"

definition reset_simple :: "rng \<Rightarrow> simple_env \<Rightarrow> real list \<times> simple_env \<times> rng" where
  "reset_simple r s =
     (let (n_cortisol, r1) = np_normal 0 2 r;
          (n_acth, r2) = np_normal 0 5 r1;
          (n_crh, r3) = np_normal 0 20 r2;
          (u_stress, r4) = np_uniform 0 3 r3;
          (u_time, r5) = np_uniform 0 24 r4;
          (u_phase, r6) = np_uniform 0 (2 * pi) r5;
          s' = s\<lparr>s_cortisol := 12.0 + n_cortisol,
                 s_acth := 25.0 + n_acth,
                 s_crh := 100.0 + n_crh,
                 s_pituitary_mass := 1.0,
                 s_adrenal_mass := 1.0,
                 s_mr_receptors := 1.0,
                 s_gr_receptors := 1.0,
                 s_stress_level := u_stress,
                 s_time_hours := u_time,
                 s_day := 0,
                 s_ultradian_phase := u_phase,
                 s_current_step := 0,
                 s_cumulative_load := 0.0,
                 s_cortisol_history := refill_history (12.0 + n_cortisol)\<rparr>
      in (get_state_simple s', s', r6))"


section \<open>Runs, projections and declared ranges\<close>

text \<open>The parts of what a call of \<open>step\<close> returns and leaves behind.\<close>

definition step_obs :: "int \<Rightarrow> rng \<Rightarrow> env \<Rightarrow> real list" where
  "step_obs action r s = fst (fst (step action r s))"

definition step_reward :: "int \<Rightarrow> rng \<Rightarrow> env \<Rightarrow> real" where
  "step_reward action r s = fst (snd (fst (step action r s)))"

definition step_done :: "int \<Rightarrow> rng \<Rightarrow> env \<Rightarrow> bool" where
  "step_done action r s = snd (snd (fst (step action r s)))"

definition step_env :: "int \<Rightarrow> rng \<Rightarrow> env \<Rightarrow> env" where
  "step_env action r s = fst (snd (step action r s))"

definition step_rng :: "int \<Rightarrow> rng \<Rightarrow> env \<Rightarrow> rng" where
  "step_rng action r s = snd (snd (step action r s))"

definition step_simple_obs :: "int \<Rightarrow> rng \<Rightarrow> simple_env \<Rightarrow> real list" where
  "step_simple_obs action r s = fst (fst (step_simple action r s))"

definition step_simple_reward :: "int \<Rightarrow> rng \<Rightarrow> simple_env \<Rightarrow> real" where
  "step_simple_reward action r s = fst (snd (fst (step_simple action r s)))"

definition step_simple_done :: "int \<Rightarrow> rng \<Rightarrow> simple_env \<Rightarrow> bool" where
  "step_simple_done action r s = snd (snd (fst (step_simple action r s)))"

definition step_simple_env :: "int \<Rightarrow> rng \<Rightarrow> simple_env \<Rightarrow> simple_env" where
  "step_simple_env action r s = fst (snd (step_simple action r s))"

definition step_simple_rng :: "int \<Rightarrow> rng \<Rightarrow> simple_env \<Rightarrow> rng" where
  "step_simple_rng action r s = snd (snd (step_simple action r s))"

definition reset_env :: "rng \<Rightarrow> env \<Rightarrow> env" where
  "reset_env r s = fst (snd (reset r s))"

definition reset_rng :: "rng \<Rightarrow> env \<Rightarrow> rng" where
  "reset_rng r s = snd (snd (reset r s))"

definition reset_simple_env :: "rng \<Rightarrow> simple_env \<Rightarrow> simple_env" where
  "reset_simple_env r s = fst (snd (reset_simple r s))"

definition reset_simple_rng :: "rng \<Rightarrow> simple_env \<Rightarrow> rng" where
  "reset_simple_rng r s = snd (snd (reset_simple r s))"

text \<open>
  The agent's loop: one call of \<open>step\<close> per action of the list, each on the object and the
  tape the previous call left. The result lists what every call returned.
\<close>

fun run :: "int list \<Rightarrow> rng \<Rightarrow> env \<Rightarrow> (real list \<times> real \<times> bool) list \<times> env \<times> rng" where
  "run [] r s = ([], s, r)"
| "run (a # as) r s =
     (let (out, s1, r1) = step a r s;
          (outs, s2, r2) = run as r1 s1
      in (out # outs, s2, r2))"

fun run_simple ::
    "int list \<Rightarrow> rng \<Rightarrow> simple_env \<Rightarrow> (real list \<times> real \<times> bool) list \<times> simple_env \<times> rng" where
  "run_simple [] r s = ([], s, r)"
| "run_simple (a # as) r s =
     (let (out, s1, r1) = step_simple a r s;
          (outs, s2, r2) = run_simple as r1 s1
      in (out # outs, s2, r2))"

text \<open>The \<open>done\<close> flag that the call number \<open>k + 1\<close> of a run returned.\<close>

definition done_flag :: "(real list \<times> real \<times> bool) list \<Rightarrow> nat \<Rightarrow> bool" where
  "done_flag outs k = snd (snd (outs ! k))"

text \<open>The default arguments of the constructor of the extended model.\<close>

definition default_time_step_hours :: real where
  "default_time_step_hours = 0.1"

definition default_max_steps :: int where
  "default_max_steps = 2400"

text \<open>
  The declared ranges: the bounds of the \<open>np.clip\<close>, \<open>max\<close> and \<open>min\<close> calls that follow the
  update of each variable.
\<close>

definition bounded :: "env \<Rightarrow> bool" where
  "bounded s \<longleftrightarrow>
     in_range 0 60 (cortisol s) \<and>
     in_range 0 200 (acth s) \<and>
     in_range 0 400 (crh s) \<and>
     in_range 0.5 30 (avp s) \<and>
     in_range 0 40 (beta_endorphin s) \<and>
     in_range 0.5 2 (adrenal_mass s) \<and>
     in_range 0.5 2 (pituitary_mass s) \<and>
     in_range 0.3 1.5 (gr_receptors s) \<and>
     in_range 0.5 1.2 (mr_receptors s) \<and>
     in_range 0 10 (stress_physical s) \<and>
     in_range 0 10 (stress_emotional s) \<and>
     in_range 0 5 (chronic_stress_index s) \<and>
     in_range 0.1 3 (melanocortin_tone s) \<and>
     in_range 0.1 5 (ucn1 s) \<and>
     in_range 0.1 8 (ucn23 s) \<and>
     in_range 0.2 1.5 (crfr1_density s) \<and>
     in_range 0.5 1.8 (crfr2_density s) \<and>
     in_range 0 1 (nts_drive s) \<and>
     in_range 0 1 (gaba_inhibition s) \<and>
     in_range 0 1 (sfo_drive s) \<and>
     in_range 0 1 (cea_activity s) \<and>
     in_range 0 1 (mea_activity s) \<and>
     in_range 0 2 (cea_sensitisation s) \<and>
     in_range 0 1 (pfc_inhibition s) \<and>
     in_range 0 1 (lc_activity s) \<and>
     in_range 0 1 (hippocampal_damage s) \<and>
     in_range (- 1) 1 (arcuate_metabolic_drive s)"

definition bounded_simple :: "simple_env \<Rightarrow> bool" where
  "bounded_simple s \<longleftrightarrow>
     in_range 0 60 (s_cortisol s) \<and>
     in_range 0 200 (s_acth s) \<and>
     in_range 0 400 (s_crh s) \<and>
     in_range 0.5 2 (s_adrenal_mass s) \<and>
     in_range 0.5 2 (s_pituitary_mass s) \<and>
     in_range 0.3 1.5 (s_gr_receptors s) \<and>
     in_range 0.5 1.2 (s_mr_receptors s) \<and>
     in_range 0 10 (s_stress_level s)"

text \<open>
  The reading of the specification that the cost is a function of the post-update state
  alone: the load function applied to a state together with the receptor occupancies of
  that same state.
\<close>

definition load_of_state :: "env \<Rightarrow> real" where
  "load_of_state s =
     allostatic_load s (fst (receptor_occupancy s)) (snd (receptor_occupancy s))"

definition load_of_state_simple :: "simple_env \<Rightarrow> real" where
  "load_of_state_simple s =
     calculate_allostatic_load s
       (fst (calculate_receptor_occupancy (cortisol_to_nmol (s_cortisol s))))
       (snd (calculate_receptor_occupancy (cortisol_to_nmol (s_cortisol s))))"

section \<open>Concrete objects used to exercise the theorems\<close>

text \<open>
  The extended model at its basal values, at 08:00, with the default construction
  parameters; and a tape whose every sample is \<open>1/2\<close> (no stress event fires).
\<close>

definition basal_env :: env where
  "basal_env =
     \<lparr>dt = 0.1, max_steps = 2400,
      crh = 100, acth = 25, cortisol = 12, avp = 4, beta_endorphin = 5,
      melanocortin_tone = 1, ucn1 = 1, ucn23 = 1,
      mr_receptors = 1, gr_receptors = 1, crfr1_density = 1, crfr2_density = 1,
      pituitary_mass = 1, adrenal_mass = 1,
      nts_drive = 0.2, gaba_inhibition = 0.3, sfo_drive = 0.2,
      cea_activity = 0.2, mea_activity = 0.2, cea_sensitisation = 0,
      pfc_inhibition = 0.4, lc_activity = 0.2, hippocampal_damage = 0,
      arcuate_metabolic_drive = 0,
      stress_physical = 0, stress_emotional = 0, chronic_stress_index = 0,
      time_hours = 8, day = 0, ultradian_phase = 0,
      prev_cortisol = 12, fast_feedback_signal = 0,
      current_step = 0, cumulative_load = 0,
      cortisol_history = replicate 50 12\<rparr>"

definition basal_simple_env :: simple_env where
  "basal_simple_env =
     \<lparr>s_dt = 0.1, s_stage = ''adult'',
      s_cortisol = 12, s_acth = 25, s_crh = 100,
      s_pituitary_mass = 1, s_adrenal_mass = 1,
      s_mr_receptors = 1, s_gr_receptors = 1,
      s_stress_level = 0, s_time_hours = 8, s_day = 0, s_ultradian_phase = 0,
      s_cortisol_history = replicate 50 12,
      s_current_step = 0, s_cumulative_load = 0\<rparr>"

definition quiet_tape :: rng where
  "quiet_tape = sconst (1 / 2)"

text \<open>
  A simple-model object in its declared ranges, late in the evening (20:00) with low
  hormone levels: the cortisol update of the next step is clipped at \<open>0\<close>.
\<close>

definition low_simple_env :: simple_env where
  "low_simple_env =
     \<lparr>s_dt = 0.1, s_stage = ''adult'',
      s_cortisol = 0.05, s_acth = 0, s_crh = 0,
      s_pituitary_mass = 1, s_adrenal_mass = 1,
      s_mr_receptors = 1, s_gr_receptors = 1,
      s_stress_level = 0, s_time_hours = 20, s_day = 0, s_ultradian_phase = 0,
      s_cortisol_history = replicate 50 0.05,
      s_current_step = 0, s_cumulative_load = 0\<rparr>"


section \<open>Range preservation, block by block\<close>

text \<open>
  Every block of \<open>step\<close> leaves each bounded variable in its declared interval: the
  variables it assigns are clipped, the others are untouched.
\<close>

lemma in_range_clip: "lo \<le> hi \<Longrightarrow> in_range lo hi (clip x lo hi)"
  by (simp add: in_range_def clip_def)

lemma in_range_decay:
  "in_range 0 10 x \<Longrightarrow> in_range 0 10 (max 0 (x * 97 / 100 - 3 / 100))"
  "in_range 0 10 x \<Longrightarrow> in_range 0 10 (max 0 (x * 49 / 50 - 1 / 20))"
  by (simp_all add: in_range_def)

lemma in_range_spike: "in_range 0 10 x \<Longrightarrow> 0 \<le> m \<Longrightarrow> in_range 0 10 (min 10 (x + m))"
  by (simp add: in_range_def)

lemma magnitude_nonneg: "0 \<le> fst (np_choice_magnitude r)"
  by (simp add: np_choice_magnitude_def)

lemma bounded_update_amygdala: "bounded s \<Longrightarrow> bounded (update_amygdala s m g)"
  by (simp add: bounded_def update_amygdala_def Let_def in_range_clip)

lemma bounded_update_pfc: "bounded s \<Longrightarrow> bounded (update_pfc s m g)"
  by (simp add: bounded_def update_pfc_def Let_def in_range_clip)

lemma bounded_update_lc: "bounded s \<Longrightarrow> bounded (update_lc s)"
  by (simp add: bounded_def update_lc_def Let_def in_range_clip)

lemma bounded_update_sfo: "bounded s \<Longrightarrow> bounded (update_sfo s)"
  by (simp add: bounded_def update_sfo_def Let_def in_range_clip)

lemma bounded_update_arcuate: "bounded s \<Longrightarrow> bounded (update_arcuate s)"
  by (simp add: bounded_def update_arcuate_def Let_def in_range_clip)

lemma bounded_update_upstream_signals: "bounded s \<Longrightarrow> bounded (update_upstream_signals s m g)"
  by (simp add: bounded_def update_upstream_signals_def Let_def in_range_clip)

lemma bounded_update_urocortins: "bounded s \<Longrightarrow> bounded (update_urocortins s)"
  by (simp add: bounded_def update_urocortins_def Let_def in_range_clip)

lemma bounded_update_hippocampal_damage: "bounded s \<Longrightarrow> bounded (update_hippocampal_damage s g)"
  by (simp add: bounded_def update_hippocampal_damage_def Let_def in_range_clip)

lemma bounded_total_negative_feedback: "bounded s \<Longrightarrow> bounded (snd (total_negative_feedback s))"
  by (simp add: bounded_def total_negative_feedback_def fast_nongenomic_feedback_def Let_def split_def)

lemma bounded_regulatory_phase: "bounded s \<Longrightarrow> bounded (snd (regulatory_phase s))"
proof -
  assume b: "bounded s"
  have "bounded (s\<lparr>prev_cortisol := cortisol s\<rparr>)"
    using b by (simp add: bounded_def)
  then show ?thesis
    by (simp add: regulatory_phase_def Let_def split_def
        bounded_update_amygdala bounded_update_pfc bounded_update_lc bounded_update_sfo
        bounded_update_arcuate bounded_update_upstream_signals bounded_update_urocortins
        bounded_update_hippocampal_damage bounded_total_negative_feedback)
qed

lemma bounded_crh_dynamics: "bounded s \<Longrightarrow> bounded (crh_dynamics s a b c d)"
  by (simp add: bounded_def crh_dynamics_def Let_def in_range_clip)

lemma bounded_acth_dynamics: "bounded s \<Longrightarrow> bounded (acth_dynamics s a b c d e f)"
  by (simp add: bounded_def acth_dynamics_def Let_def in_range_clip)

lemma bounded_cortisol_dynamics: "bounded s \<Longrightarrow> bounded (fst (cortisol_dynamics r s c))"
  by (simp add: bounded_def cortisol_dynamics_def ultradian_pulse_def Let_def split_def in_range_clip)

lemma bounded_hormone_phase: "bounded s \<Longrightarrow> bounded (fst (hormone_phase r s a b c d))"
  by (simp add: hormone_phase_def Let_def bounded_crh_dynamics bounded_acth_dynamics
      bounded_cortisol_dynamics)

lemma bounded_update_pomc_products: "bounded s \<Longrightarrow> bounded (update_pomc_products s)"
  by (simp add: bounded_def update_pomc_products_def Let_def in_range_clip)

lemma bounded_update_avp: "bounded s \<Longrightarrow> bounded (update_avp s)"
  by (simp add: bounded_def update_avp_def Let_def in_range_clip)

lemma bounded_update_glands: "bounded s \<Longrightarrow> bounded (update_glands s)"
  by (simp add: bounded_def update_glands_def Let_def in_range_clip)

lemma bounded_update_crf_receptors: "bounded s \<Longrightarrow> bounded (update_crf_receptors s)"
  by (simp add: bounded_def update_crf_receptors_def Let_def split_def in_range_clip)

lemma bounded_advance_time: "bounded s \<Longrightarrow> bounded (advance_time s)"
  by (simp add: bounded_def advance_time_def Let_def)

lemma bounded_stress_process: "bounded s \<Longrightarrow> bounded (fst (stress_process r s))"
  by (simp add: bounded_def stress_process_def Let_def split_def
      in_range_decay in_range_spike magnitude_nonneg)

lemma bounded_update_chronic_stress: "bounded s \<Longrightarrow> bounded (update_chronic_stress s)"
  by (simp add: bounded_def update_chronic_stress_def in_range_clip)

lemma bounded_adaptation_phase: "bounded s \<Longrightarrow> bounded (fst (adaptation_phase r s))"
  by (simp add: adaptation_phase_def Let_def split_def bounded_update_pomc_products
      bounded_update_avp bounded_update_glands bounded_update_crf_receptors
      bounded_advance_time bounded_stress_process bounded_update_chronic_stress)

lemma bounded_step: "bounded s \<Longrightarrow> bounded (step_env a r s)"
proof -
  assume "bounded s"
  then have "bounded (snd (regulatory_phase s))"
    by (rule bounded_regulatory_phase)
  then have "bounded (fst (adaptation_phase r2 (fst (hormone_phase r1 (snd (regulatory_phase s)) x y z w))))"
    for r1 r2 x y z w
    by (intro bounded_adaptation_phase bounded_hormone_phase)
  then show ?thesis
    by (simp add: step_env_def step_def Let_def split_def bounded_def)
qed


lemma bounded_crh_dynamics_s: "bounded_simple s \<Longrightarrow> bounded_simple (crh_dynamics_s s a b)"
  by (simp add: bounded_simple_def crh_dynamics_s_def Let_def in_range_clip)

lemma bounded_acth_dynamics_s: "bounded_simple s \<Longrightarrow> bounded_simple (acth_dynamics_s s a b)"
  by (simp add: bounded_simple_def acth_dynamics_s_def Let_def in_range_clip)

lemma bounded_cortisol_dynamics_s:
  "bounded_simple s \<Longrightarrow> bounded_simple (fst (cortisol_dynamics_s r s c))"
  by (simp add: bounded_simple_def cortisol_dynamics_s_def get_ultradian_pulse_def
      Let_def split_def in_range_clip)

lemma bounded_update_gland_masses: "bounded_simple s \<Longrightarrow> bounded_simple (update_gland_masses s)"
  by (simp add: bounded_simple_def update_gland_masses_def Let_def in_range_clip)

lemma bounded_advance_time_s: "bounded_simple s \<Longrightarrow> bounded_simple (advance_time_s s)"
  by (simp add: bounded_simple_def advance_time_s_def Let_def)

lemma bounded_stress_process_s: "bounded_simple s \<Longrightarrow> bounded_simple (fst (stress_process_s r s))"
  by (simp add: bounded_simple_def stress_process_s_def Let_def split_def
      in_range_decay in_range_spike magnitude_nonneg)

lemma bounded_step_simple: "bounded_simple s \<Longrightarrow> bounded_simple (step_simple_env a r s)"
proof -
  assume "bounded_simple s"
  then have "bounded_simple (fst (stress_process_s r2 (advance_time_s (update_gland_masses
      (fst (cortisol_dynamics_s r1 (acth_dynamics_s (crh_dynamics_s s x f) y f) z))))))"
    for r1 r2 x y z f
    by (intro bounded_stress_process_s bounded_advance_time_s bounded_update_gland_masses
        bounded_cortisol_dynamics_s bounded_acth_dynamics_s bounded_crh_dynamics_s)
  then show ?thesis
    by (simp add: step_simple_env_def step_simple_def Let_def split_def bounded_simple_def)
qed

lemma bounded_basal_env: "bounded basal_env"
  by (simp add: bounded_def basal_env_def in_range_def)

lemma bounded_basal_simple_env: "bounded_simple basal_simple_env"
  by (simp add: bounded_simple_def basal_simple_env_def in_range_def)


section \<open>Action decoding\<close>

text \<open>
  The three base-3 digits that \<open>step\<close> reads from the action are those of the action
  modulo 27.
\<close>

lemma mod27_mod3: "(a mod 27) mod 3 = (a::int) mod 3"
  by (simp add: mod_mod_cancel)

lemma mod27_div3: "(a mod 27) div 3 = (a div 3) mod (9::int)"
proof -
  have "a mod (3 * 9) = 3 * (a div 3 mod 9) + a mod 3"
    by (rule zmod_zmult2_eq) simp
  then have "(a mod 27) div 3 = (3 * (a div 3 mod 9) + a mod 3) div 3"
    by simp
  also have "\<dots> = a div 3 mod 9"
    by simp
  finally show ?thesis .
qed

lemma mod27_div9: "(a mod 27) div 9 = (a div 9) mod (3::int)"
proof -
  have "a mod (9 * 3) = 9 * (a div 9 mod 3) + a mod 9"
    by (rule zmod_zmult2_eq) simp
  then have "(a mod 27) div 9 = (9 * (a div 9 mod 3) + a mod 9) div 9"
    by simp
  also have "\<dots> = a div 9 mod 3"
    by simp
  finally show ?thesis .
qed

lemma mod27_div3_mod3: "(a mod 27) div 3 mod 3 = (a::int) div 3 mod 3"
  by (simp add: mod27_div3 mod_mod_cancel)

lemma mod27_div9_mod3: "(a mod 27) div 9 mod 3 = (a::int) div 9 mod 3"
  by (simp add: mod27_div9)

lemma step_mod27: "step a r s = step (a mod 27) r s"
  by (simp only: step_def mod27_mod3 mod27_div3_mod3 mod27_div9_mod3)

lemma step_simple_mod27: "step_simple a r s = step_simple (a mod 27) r s"
  by (simp only: step_simple_def mod27_mod3 mod27_div3_mod3 mod27_div9_mod3)



section \<open>Claims\<close>

text \<open>
  Claim C1. For every action and every starting state whose bounded variables lie in
  their declared ranges, every bounded variable lies in its declared closed interval
  again after \<open>step\<close>: cortisol in \<open>[0, 60]\<close>, ACTH in \<open>[0, 200]\<close>, CRH in \<open>[0, 400]\<close>,
  AVP in \<open>[0.5, 30]\<close>, beta-endorphin in \<open>[0, 40]\<close>, the gland masses in \<open>[0.5, 2]\<close>, GR
  density in \<open>[0.3, 1.5]\<close>, MR density in \<open>[0.5, 1.2]\<close>, each stress pool in \<open>[0, 10]\<close>, the
  chronic stress index in \<open>[0, 5]\<close> and every modulatory tone variable in the interval of
  its clip; in the extended and in the simple model. The action need not even be one of
  the declared ones, and nothing is asked of the random tape.
\<close>

theorem step_keeps_declared_ranges:
  "(bounded s \<longrightarrow> bounded (step_env a r s)) \<and>
   (bounded_simple t \<longrightarrow> bounded_simple (step_simple_env b r' t))"
proof (intro conjI impI)
  assume "bounded s"
  then show "bounded (step_env a r s)"
    by (rule bounded_step)
next
  assume "bounded_simple t"
  then show "bounded_simple (step_simple_env b r' t)"
    by (rule bounded_step_simple)
qed

theorem step_keeps_declared_ranges_witness:
  "bounded basal_env \<and> bounded (step_env 13 quiet_tape basal_env) \<and>
   bounded_simple basal_simple_env \<and>
   bounded_simple (step_simple_env 4 quiet_tape basal_simple_env)"
  using step_keeps_declared_ranges [of basal_env 13 quiet_tape basal_simple_env 4 quiet_tape]
  by (simp add: bounded_basal_env bounded_basal_simple_env)

end
